theory Spec2Isabelle
  imports Main "HOL-Library.Sublist"
begin

section \<open>Values and errors\<close>

text \<open>
  A \<^verbatim>\<open>datetime\<close> is a count of whole seconds since the epoch, the resolution of the
  time claims of a token. One request reads the clock once: the handlers take the
  value of \<^verbatim>\<open>datetime.utcnow()\<close> as the argument \<open>now\<close>.
\<close>

type_synonym datetime = int

text \<open>
  The exceptions the handlers raise or let through. \<open>HTTPException\<close> carries the
  status code and the detail; \<open>RequestValidationError\<close> is the framework's rejection of
  a request body; \<open>ValidationError\<close> is raised by a model constructor inside a handler;
  \<open>KeyError\<close> and \<open>IndexError\<close> are Python's own; \<open>External\<close> stands for any exception
  raised inside a library (the OAuth client, the database driver, the token library),
  with the text \<^verbatim>\<open>str\<close> gives for it.
\<close>

datatype exn =
    HTTPException nat string
  | RequestValidationError
  | ValidationError
  | KeyError string
  | IndexError
  | External string



section \<open>Token service\<close>

text \<open>
  \<open>user_claims\<close> is the dictionary \<^verbatim>\<open>google_auth\<close> passes to \<^verbatim>\<open>create_access_token\<close>;
  \<open>claims\<close> is the payload of a token: these three claims and the registered claims the
  token library checks by default, the expiry \<^verbatim>\<open>exp\<close>, \<^verbatim>\<open>nbf\<close> (not before), \<^verbatim>\<open>iat\<close>
  (issued at) and the audience \<^verbatim>\<open>aud\<close>, a string or a list of strings. A claim that is
  absent from the dictionary is \<open>None\<close>. The time claims are whole seconds; a payload
  that gives one of them a value that is not a number is malformed for the library
  and has no representation here.
\<close>

record user_claims =
  sub :: "string option"
  email_claim :: "string option"
  name_claim :: "string option"

datatype audience = AudStr string | AudList "string list"

record claims = user_claims +
  exp :: "datetime option"
  nbf :: "datetime option"
  iat :: "datetime option"
  aud :: "audience option"

text \<open>Python's truth value of an audience: false when it is empty.\<close>

fun truthy :: "audience \<Rightarrow> bool" where
  "truthy (AudStr s) = (s \<noteq> [])"
| "truthy (AudList xs) = (xs \<noteq> [])"

text \<open>A token after its three segments are decoded: the header's algorithm, the
  payload and the signature.\<close>

record jws =
  alg :: string
  payload :: claims
  signature :: string

text \<open>
  What the token library brings and the source does not contain: the compact
  serialisation of a token and its inverse (base64url and JSON), the keyed hash, and
  the preparation of the key. \<open>mac L key a p\<close> is the signature of algorithm \<open>a\<close> under
  \<open>key\<close> over the header and the payload \<open>p\<close>. \<open>prepare_key L k\<close> is what the library
  makes of the value of \<^verbatim>\<open>os.environ.get("SECRET_KEY")\<close>, \<open>None\<close> when the variable is
  unset: the key, or the exception it raises for a value it refuses.
\<close>

record jwt_lib =
  compact :: "jws \<Rightarrow> string"
  parse :: "string \<Rightarrow> jws option"
  mac :: "string \<Rightarrow> string \<Rightarrow> claims \<Rightarrow> string"
  prepare_key :: "string option \<Rightarrow> exn + string"

datatype jwt_error =
    DecodeError
  | InvalidAlgorithmError
  | InvalidSignatureError
  | ImmatureSignatureError
  | ExpiredSignatureError
  | InvalidAudienceError

text \<open>\<^verbatim>\<open>jwt.encode(payload, key, algorithm=a)\<close> under a key the library accepts.\<close>

definition jwt_encode :: "jwt_lib \<Rightarrow> claims \<Rightarrow> string \<Rightarrow> string \<Rightarrow> string" where
  "jwt_encode L p key a = compact L \<lparr>alg = a, payload = p, signature = mac L key a p\<rparr>"

text \<open>
  The library's validation of the registered claims under its default options, with no
  audience given by the caller: \<^verbatim>\<open>iat\<close> and \<^verbatim>\<open>nbf\<close> must not be after the current time,
  \<^verbatim>\<open>exp\<close> must be after it, and a token with a non-empty \<^verbatim>\<open>aud\<close> is refused. Each check
  is made only when the payload has the claim: none is required.
\<close>

definition validate_claims :: "datetime \<Rightarrow> claims \<Rightarrow> jwt_error + claims" where
  "validate_claims now p =
     (if (case iat p of None \<Rightarrow> False | Some i \<Rightarrow> now < i) then Inl ImmatureSignatureError
      else if (case nbf p of None \<Rightarrow> False | Some n \<Rightarrow> now < n) then Inl ImmatureSignatureError
      else if (case exp p of None \<Rightarrow> False | Some e \<Rightarrow> e \<le> now) then Inl ExpiredSignatureError
      else if (case aud p of None \<Rightarrow> False | Some a \<Rightarrow> truthy a) then Inl InvalidAudienceError
      else Inr p)"

text \<open>
  \<^verbatim>\<open>jwt.decode(token, key, algorithms=algs)\<close> with the library's default options, as
  \<^verbatim>\<open>verify_token\<close> calls it, under a key the library accepts: the structure, the algorithm
  against the allowed list, the signature, and the registered claims.
\<close>

definition jwt_decode ::
  "jwt_lib \<Rightarrow> datetime \<Rightarrow> string \<Rightarrow> string \<Rightarrow> string list \<Rightarrow> jwt_error + claims" where
  "jwt_decode L now token key algs =
     (case parse L token of
        None \<Rightarrow> Inl DecodeError
      | Some j \<Rightarrow>
          if alg j \<notin> set algs then Inl InvalidAlgorithmError
          else if signature j \<noteq> mac L key (alg j) (payload j) then Inl InvalidSignatureError
          else validate_claims now (payload j))"

text \<open>\<^verbatim>\<open>timedelta(hours=h)\<close>, in seconds.\<close>

definition timedelta_hours :: "int \<Rightarrow> int" where
  "timedelta_hours h = h * 3600"

text \<open>\<^verbatim>\<open>create_access_token(data)\<close>; \<open>secret\<close> is the value of \<^verbatim>\<open>SECRET_KEY\<close>, a key the
  library accepts.\<close>

definition create_access_token :: "jwt_lib \<Rightarrow> string \<Rightarrow> datetime \<Rightarrow> user_claims \<Rightarrow> string" where
  "create_access_token L secret now data =
     (let expire = now + timedelta_hours 24;
          to_encode = \<lparr>sub = sub data, email_claim = email_claim data,
                       name_claim = name_claim data,
                       exp = Some expire, nbf = None, iat = None, aud = None\<rparr>;
          encoded_jwt = jwt_encode L to_encode secret ''HS256''
      in encoded_jwt)"

text \<open>\<^verbatim>\<open>verify_token(token)\<close> under a key the library accepts: the two \<^verbatim>\<open>except\<close>
  clauses in their order.\<close>

definition verify_token :: "jwt_lib \<Rightarrow> string \<Rightarrow> datetime \<Rightarrow> string \<Rightarrow> exn + claims" where
  "verify_token L secret now token =
     (case jwt_decode L now token secret [''HS256''] of
        Inr p \<Rightarrow> Inr p
      | Inl ExpiredSignatureError \<Rightarrow> Inl (HTTPException 401 ''Token expired'')
      | Inl other \<Rightarrow> Inl (HTTPException 401 ''Invalid token''))"

section \<open>The document store\<close>

text \<open>
  A document of the \<^verbatim>\<open>users\<close> collection has the nine keys of \<^verbatim>\<open>user_data\<close>.
  \<^verbatim>\<open>name\<close>, \<^verbatim>\<open>about_me\<close> and \<^verbatim>\<open>age\<close> can hold null (\<open>None\<close>): the profile update
  writes what the request gives. The field \<open>id'\<close> is the key \<^verbatim>\<open>id\<close>.
\<close>

record user_doc =
  id' :: string
  google_id :: string
  email :: string
  name :: "string option"
  picture :: string
  about_me :: "string option"
  age :: "int option"
  created_at :: datetime
  last_login :: datetime

text \<open>\<^verbatim>\<open>StatusCheck\<close>: the id, the client name and the timestamp.\<close>

datatype StatusCheck = StatusCheck string string datetime

text \<open>
  The database: each collection is the list of its documents in the order of their
  insertion, the order in which \<^verbatim>\<open>find\<close> without a sort returns them.
\<close>

record db =
  users :: "user_doc list"
  status_checks :: "StatusCheck list"

text \<open>The filter \<^verbatim>\<open>{"google_id": g}\<close>.\<close>

definition by_google_id :: "string \<Rightarrow> user_doc \<Rightarrow> bool" where
  "by_google_id g d = (google_id d = g)"

text \<open>\<^verbatim>\<open>find_one\<close>: the first document the filter matches.\<close>

definition find_one :: "('a \<Rightarrow> bool) \<Rightarrow> 'a list \<Rightarrow> 'a option" where
  "find_one flt coll = List.find flt coll"

text \<open>\<^verbatim>\<open>update_one\<close> without upsert: the update is applied to the first document the
  filter matches, and to no other.\<close>

fun update_one :: "('a \<Rightarrow> bool) \<Rightarrow> ('a \<Rightarrow> 'a) \<Rightarrow> 'a list \<Rightarrow> 'a list" where
  "update_one flt upd [] = []"
| "update_one flt upd (d # ds) = (if flt d then upd d # ds else d # update_one flt upd ds)"

text \<open>\<^verbatim>\<open>update_one(..., upsert=True)\<close>: when no document matches, \<open>new\<close> (the filter's
  and the update's keys) is inserted.\<close>

definition update_one_upsert :: "('a \<Rightarrow> bool) \<Rightarrow> ('a \<Rightarrow> 'a) \<Rightarrow> 'a \<Rightarrow> 'a list \<Rightarrow> 'a list" where
  "update_one_upsert flt upd new coll =
     (if list_ex flt coll then update_one flt upd coll else coll @ [new])"

text \<open>The integers the driver can encode: eight bytes, signed. It raises for any other
  and writes nothing.\<close>

definition fits_int64 :: "int \<Rightarrow> bool" where
  "fits_int64 n = (- (2 ^ 63) \<le> n \<and> n < 2 ^ 63)"

section \<open>Authentication of a request\<close>

text \<open>Python's \<^verbatim>\<open>s.split(c)\<close> for a one-character separator.\<close>

fun split_on :: "char \<Rightarrow> string \<Rightarrow> string list" where
  "split_on c [] = [[]]"
| "split_on c (x # xs) =
     (if x = c then [] # split_on c xs
      else (case split_on c xs of
              [] \<Rightarrow> [[x]]
            | w # ws \<Rightarrow> (x # w) # ws))"

definition startswith :: "string \<Rightarrow> string \<Rightarrow> bool" where
  "startswith s p = prefix p s"

text \<open>\<^verbatim>\<open>auth_header.split(" ")[1]\<close>; \<open>None\<close> when the index is out of range.\<close>

definition bearer_token :: "string \<Rightarrow> string option" where
  "bearer_token h =
     (case split_on (CHR '' '') h of
        a # token # rest \<Rightarrow> Some token
      | other \<Rightarrow> None)"

text \<open>
  What a deployment fixes: the token library, the environment variables
  \<^verbatim>\<open>SECRET_KEY\<close> and \<^verbatim>\<open>FRONTEND_URL\<close> (\<open>None\<close> when unset), and Python's \<^verbatim>\<open>str\<close> on an
  exception.
\<close>

record env =
  lib :: jwt_lib
  SECRET_KEY :: "string option"
  FRONTEND_URL :: "string option"
  str_of :: "exn \<Rightarrow> string"

text \<open>The key the token functions work with: \<^verbatim>\<open>os.environ.get("SECRET_KEY")\<close> as the
  library prepares it.\<close>

definition secret_key :: "env \<Rightarrow> exn + string" where
  "secret_key E = prepare_key (lib E) (SECRET_KEY E)"

text \<open>
  \<^verbatim>\<open>verify_token(token)\<close> as a handler calls it. The library reads the structure of the
  token and its algorithm before it prepares the key; the exception of a refused key is
  none of those \<^verbatim>\<open>verify_token\<close> catches.
\<close>

definition verify_token_env :: "env \<Rightarrow> datetime \<Rightarrow> string \<Rightarrow> exn + claims" where
  "verify_token_env E now token =
     (case secret_key E of
        Inr k \<Rightarrow> verify_token (lib E) k now token
      | Inl e \<Rightarrow>
          (case parse (lib E) token of
             None \<Rightarrow> Inl (HTTPException 401 ''Invalid token'')
           | Some j \<Rightarrow>
               if alg j \<noteq> ''HS256'' then Inl (HTTPException 401 ''Invalid token'')
               else Inl e))"

text \<open>
  \<^verbatim>\<open>UserProfile(**user)\<close> on a stored document: \<^verbatim>\<open>name\<close> and \<^verbatim>\<open>about_me\<close> are declared
  \<^verbatim>\<open>str\<close>, so a stored null is refused; \<^verbatim>\<open>age\<close> is \<^verbatim>\<open>Optional[int]\<close>.
\<close>

definition UserProfile :: "user_doc \<Rightarrow> exn + user_doc" where
  "UserProfile d = (if name d = None \<or> about_me d = None then Inl ValidationError else Inr d)"

text \<open>
  \<^verbatim>\<open>get_current_user(request)\<close>; \<open>auth_header\<close> is
  \<^verbatim>\<open>request.headers.get("Authorization")\<close>. A payload without \<^verbatim>\<open>sub\<close> gives the filter
  \<^verbatim>\<open>{"google_id": None}\<close>, which no document matches: every stored \<^verbatim>\<open>google_id\<close> is a
  string.
\<close>

definition get_current_user :: "env \<Rightarrow> datetime \<Rightarrow> string option \<Rightarrow> db \<Rightarrow> exn + user_doc" where
  "get_current_user E now auth_header d =
     (case auth_header of
        None \<Rightarrow> Inl (HTTPException 401 ''Missing or invalid authorization header'')
      | Some h \<Rightarrow>
          if h = [] \<or> \<not> startswith h ''Bearer ''
          then Inl (HTTPException 401 ''Missing or invalid authorization header'')
          else (case bearer_token h of
                  None \<Rightarrow> Inl IndexError
                | Some token \<Rightarrow>
                    (case verify_token_env E now token of
                       Inl e \<Rightarrow> Inl e
                     | Inr p \<Rightarrow>
                         (case (case sub p of
                                  None \<Rightarrow> None
                                | Some g \<Rightarrow> find_one (by_google_id g) (users d)) of
                            None \<Rightarrow> Inl (HTTPException 404 ''User not found'')
                          | Some user \<Rightarrow> UserProfile user))))"


section \<open>Request bodies and their validation\<close>

text \<open>A JSON value as \<^verbatim>\<open>json.loads\<close> returns it. Numbers with a fraction or an exponent
  are outside the model.\<close>

datatype json = JNull | JBool bool | JInt int | JStr string | JArr "json list" | JObj "(string \<times> json) list"

text \<open>
  The body of a request as the framework finds it, before any dependency runs:
  bytes that are not JSON (\<open>Undecodable\<close>), bytes it fails to read for another reason
  (\<open>Unreadable\<close>), or the decoded value, \<open>None\<close> when the body is empty.
\<close>

datatype request_body = Undecodable | Unreadable | Decoded "json option"

text \<open>
  The conversion of a JSON value that is not null to \<^verbatim>\<open>int\<close>, as the validation
  library (pydantic 2, lax mode) makes it: an integer is taken as it is, a boolean as 0
  or 1, and a string when it reads as an integer: white space around it is dropped, a
  sign may come first, the digits may be grouped by single underscores, and a decimal
  point followed by zeros only may end it. Arrays and objects are refused.
\<close>

definition is_digit :: "char \<Rightarrow> bool" where
  "is_digit c = (c \<in> set ''0123456789'')"

definition is_space :: "char \<Rightarrow> bool" where
  "is_space c = (c \<in> set [CHR '' '', CHR 0x09, CHR 0x0A, CHR 0x0B, CHR 0x0C, CHR 0x0D])"

definition strip :: "string \<Rightarrow> string" where
  "strip s = rev (dropWhile is_space (rev (dropWhile is_space s)))"

fun digit_value :: "char \<Rightarrow> int" where
  "digit_value c =
     (if c = CHR ''1'' then 1 else if c = CHR ''2'' then 2 else if c = CHR ''3'' then 3
      else if c = CHR ''4'' then 4 else if c = CHR ''5'' then 5 else if c = CHR ''6'' then 6
      else if c = CHR ''7'' then 7 else if c = CHR ''8'' then 8 else if c = CHR ''9'' then 9
      else 0)"

definition digits_value :: "string \<Rightarrow> int" where
  "digits_value ds = foldl (\<lambda>a c. 10 * a + digit_value c) 0 ds"

definition int_of_str :: "string \<Rightarrow> int option" where
  "int_of_str s =
     (let t = strip s;
          negative = (t \<noteq> [] \<and> hd t = CHR ''-'');
          u = (if t \<noteq> [] \<and> (hd t = CHR ''-'' \<or> hd t = CHR ''+'') then tl t else t);
          whole = takeWhile (\<lambda>c. c \<noteq> CHR ''.'') u;
          fraction = dropWhile (\<lambda>c. c \<noteq> CHR ''.'') u;
          groups = split_on (CHR ''_'') whole
      in if list_all (\<lambda>g. g \<noteq> [] \<and> list_all is_digit g) groups
            \<and> list_all (\<lambda>c. c = CHR ''0'') (tl fraction)
         then Some ((if negative then - 1 else 1) * digits_value (concat groups))
         else None)"

fun as_int :: "json \<Rightarrow> int option" where
  "as_int (JInt n) = Some n"
| "as_int (JBool b) = Some (if b then 1 else 0)"
| "as_int (JStr s) = int_of_str s"
| "as_int v = None"

text \<open>The conversion to \<^verbatim>\<open>str\<close>: only a JSON string is taken.\<close>

fun as_str :: "json \<Rightarrow> string option" where
  "as_str (JStr s) = Some s"
| "as_str v = None"

section \<open>Profile update\<close>

text \<open>
  A field of \<^verbatim>\<open>UserProfileUpdate\<close> is unset when the body has no such key, and
  otherwise holds what the body gives: null or a value of the field's type.
\<close>

datatype 'a field = Unset | Given "'a option"

record UserProfileUpdate =
  upd_name :: "string field"
  upd_about_me :: "string field"
  upd_age :: "int field"

text \<open>The validation of one \<^verbatim>\<open>Optional\<close> field; \<open>None\<close> is a validation error.\<close>

definition optional_field :: "(json \<Rightarrow> 'a option) \<Rightarrow> json option \<Rightarrow> 'a field option" where
  "optional_field conv v =
     (case v of
        None \<Rightarrow> Some Unset
      | Some JNull \<Rightarrow> Some (Given None)
      | Some x \<Rightarrow> (case conv x of None \<Rightarrow> None | Some y \<Rightarrow> Some (Given (Some y))))"

text \<open>
  The decoded body validated against \<^verbatim>\<open>UserProfileUpdate\<close>: it must be an object; of a
  key that occurs twice the last value counts; keys the model does not declare are
  ignored.
\<close>

definition parse_UserProfileUpdate :: "json \<Rightarrow> exn + UserProfileUpdate" where
  "parse_UserProfileUpdate body =
     (case body of
        JObj members \<Rightarrow>
          (let dict = map_of (rev members) in
     (case optional_field as_str (dict ''name'') of
        None \<Rightarrow> Inl RequestValidationError
      | Some n \<Rightarrow>
     (case optional_field as_str (dict ''about_me'') of
        None \<Rightarrow> Inl RequestValidationError
      | Some a \<Rightarrow>
     (case optional_field as_int (dict ''age'') of
        None \<Rightarrow> Inl RequestValidationError
      | Some g \<Rightarrow> Inr \<lparr>upd_name = n, upd_about_me = a, upd_age = g\<rparr>))))
      | other \<Rightarrow> Inl RequestValidationError)"

fun set_field :: "'a field \<Rightarrow> 'a option \<Rightarrow> 'a option" where
  "set_field Unset old = old"
| "set_field (Given v) old = v"

text \<open>\<^verbatim>\<open>{"$set": update_data}\<close> with
  \<^verbatim>\<open>update_data = profile_update.dict(exclude_unset=True)\<close>.\<close>

definition set_update_data :: "UserProfileUpdate \<Rightarrow> user_doc \<Rightarrow> user_doc" where
  "set_update_data u d =
     d\<lparr>name := set_field (upd_name u) (name d),
       about_me := set_field (upd_about_me u) (about_me d),
       age := set_field (upd_age u) (age d)\<rparr>"

text \<open>
  \<^verbatim>\<open>update_user_profile(profile_update, current_user)\<close>; \<^verbatim>\<open>update_data\<close> is empty when
  every field is unset. The driver refuses an age beyond eight bytes before it writes;
  the database is taken to answer the two calls otherwise.
\<close>

definition update_user_profile :: "UserProfileUpdate \<Rightarrow> user_doc \<Rightarrow> db \<Rightarrow> (exn + user_doc) \<times> db" where
  "update_user_profile profile_update current_user d =
     (if upd_name profile_update = Unset \<and> upd_about_me profile_update = Unset
         \<and> upd_age profile_update = Unset
      then (Inr current_user, d)
      else if (case upd_age profile_update of
                 Given (Some n) \<Rightarrow> \<not> fits_int64 n
               | other \<Rightarrow> False)
      then (Inl (External ''MongoDB can only handle up to 8-byte ints''), d)
      else
        (let d' = d\<lparr>users := update_one (by_google_id (google_id current_user))
                                (set_update_data profile_update) (users d)\<rparr>
         in (case find_one (by_google_id (google_id current_user)) (users d') of
               None \<Rightarrow> (Inl (External ''argument after ** must be a mapping, not NoneType''), d')
             | Some updated_user \<Rightarrow> (UserProfile updated_user, d'))))"

text \<open>
  \<^verbatim>\<open>PUT /auth/profile\<close>. The framework reads and decodes the body first: a body that
  is not JSON is answered with a validation error, one it cannot read with status 400.
  It runs the dependency \<^verbatim>\<open>get_current_user\<close> next, validates the decoded body after
  it, and calls the handler when all succeed.
\<close>

definition put_auth_profile ::
  "env \<Rightarrow> datetime \<Rightarrow> string option \<Rightarrow> request_body \<Rightarrow> db \<Rightarrow> (exn + user_doc) \<times> db" where
  "put_auth_profile E now auth_header body d =
     (case body of
        Undecodable \<Rightarrow> (Inl RequestValidationError, d)
      | Unreadable \<Rightarrow> (Inl (HTTPException 400 ''There was an error parsing the body''), d)
      | Decoded received \<Rightarrow>
          (case get_current_user E now auth_header d of
             Inl e \<Rightarrow> (Inl e, d)
           | Inr current_user \<Rightarrow>
               (case received of
                  None \<Rightarrow> (Inl RequestValidationError, d)
                | Some v \<Rightarrow>
                    (case parse_UserProfileUpdate v of
                       Inl e \<Rightarrow> (Inl e, d)
                     | Inr profile_update \<Rightarrow>
                         update_user_profile profile_update current_user d))))"

section \<open>Login callback\<close>

datatype response = RedirectResponse string

definition frontend_url :: "env \<Rightarrow> string" where
  "frontend_url E =
     (case FRONTEND_URL E of
        None \<Rightarrow> ''https://dfe70bfd-0f3f-4410-b7d9-a3ddbd0a6aab.preview.emergentagent.com''
      | Some u \<Rightarrow> u)"

text \<open>The dictionary \<^verbatim>\<open>user_data\<close> of a login.\<close>

definition user_data :: "string \<Rightarrow> datetime \<Rightarrow> (string \<times> string) list \<Rightarrow> string \<Rightarrow> string \<Rightarrow> string
    \<Rightarrow> user_doc" where
  "user_data uuid now user_info s em nm =
     \<lparr>id' = uuid,
      google_id = s,
      email = em,
      name = Some nm,
      picture = (case map_of user_info ''picture'' of None \<Rightarrow> '''' | Some p \<Rightarrow> p),
      about_me = Some '''',
      age = None,
      created_at = now,
      last_login = now\<rparr>"

text \<open>\<^verbatim>\<open>{"$set": user_data}\<close>: every one of the nine keys is set.\<close>

definition set_user_data :: "user_doc \<Rightarrow> user_doc \<Rightarrow> user_doc" where
  "set_user_data ud d =
     d\<lparr>id' := id' ud,
       google_id := google_id ud,
       email := email ud,
       name := name ud,
       picture := picture ud,
       about_me := about_me ud,
       age := age ud,
       created_at := created_at ud,
       last_login := last_login ud\<rparr>"

text \<open>
  The body of the \<^verbatim>\<open>try\<close> block of \<^verbatim>\<open>google_auth\<close>. \<open>provider\<close> is the outcome of
  \<^verbatim>\<open>oauth.google.authorize_access_token\<close>: the exception it raised (a provider error, a
  state mismatch), or the value of \<^verbatim>\<open>token.get("userinfo")\<close>, a dictionary of strings.
  \<open>uuid\<close> is the value of \<^verbatim>\<open>str(uuid.uuid4())\<close>; \<open>fault\<close> is the exception the database
  driver raises on the write, if it does. The token is issued after the write, and the
  library can refuse the key then. The result is the exception raised or the URL of
  the redirect, and the database as the block leaves it.
\<close>

definition google_auth_try ::
  "env \<Rightarrow> datetime \<Rightarrow> string \<Rightarrow> exn + (string \<times> string) list option \<Rightarrow> exn option \<Rightarrow> db
     \<Rightarrow> (exn + string) \<times> db" where
  "google_auth_try E now uuid provider fault d =
     (case provider of
        Inl e \<Rightarrow> (Inl e, d)
      | Inr None \<Rightarrow> (Inl (HTTPException 400 ''Failed to get user info from Google''), d)
      | Inr (Some user_info) \<Rightarrow>
          if user_info = []
          then (Inl (HTTPException 400 ''Failed to get user info from Google''), d)
          else
     (case map_of user_info ''sub'' of
        None \<Rightarrow> (Inl (KeyError ''sub''), d)
      | Some s \<Rightarrow>
     (case map_of user_info ''email'' of
        None \<Rightarrow> (Inl (KeyError ''email''), d)
      | Some em \<Rightarrow>
     (case map_of user_info ''name'' of
        None \<Rightarrow> (Inl (KeyError ''name''), d)
      | Some nm \<Rightarrow>
     (case fault of
        Some e \<Rightarrow> (Inl e, d)
      | None \<Rightarrow>
          (let d' = d\<lparr>users := update_one_upsert (by_google_id s)
                                  (set_user_data (user_data uuid now user_info s em nm))
                                  (user_data uuid now user_info s em nm) (users d)\<rparr>
           in (case secret_key E of
                 Inl e \<Rightarrow> (Inl e, d')
               | Inr k \<Rightarrow>
                   (let access_token =
                          create_access_token (lib E) k now
                            \<lparr>sub = Some s, email_claim = Some em, name_claim = Some nm\<rparr>
                    in (Inr (frontend_url E @ ''/auth/callback?token='' @ access_token), d')))))))))"

text \<open>\<^verbatim>\<open>google_auth(request)\<close>: the \<^verbatim>\<open>try\<close> block under its \<^verbatim>\<open>except Exception\<close>.\<close>

definition google_auth ::
  "env \<Rightarrow> datetime \<Rightarrow> string \<Rightarrow> exn + (string \<times> string) list option \<Rightarrow> exn option \<Rightarrow> db
     \<Rightarrow> (exn + response) \<times> db" where
  "google_auth E now uuid provider fault d =
     (case google_auth_try E now uuid provider fault d of
        (Inr url, d') \<Rightarrow> (Inr (RedirectResponse url), d')
      | (Inl e, d') \<Rightarrow>
          (Inr (RedirectResponse (frontend_url E @ ''/auth/error?message='' @ str_of E e)), d'))"

section \<open>Status log\<close>

text \<open>\<^verbatim>\<open>create_status_check(input)\<close>; \<open>uuid\<close> and \<open>now\<close> are the generated id and
  timestamp.\<close>

definition create_status_check :: "string \<Rightarrow> datetime \<Rightarrow> string \<Rightarrow> db \<Rightarrow> StatusCheck \<times> db" where
  "create_status_check uuid now client_name d =
     (let status_obj = StatusCheck uuid client_name now
      in (status_obj, d\<lparr>status_checks := status_checks d @ [status_obj]\<rparr>))"

text \<open>\<^verbatim>\<open>cursor.to_list(n)\<close>: the first \<open>n\<close> documents of the cursor.\<close>

definition to_list :: "nat \<Rightarrow> 'a list \<Rightarrow> 'a list" where
  "to_list n cursor = take n cursor"

text \<open>\<^verbatim>\<open>get_status_checks()\<close>.\<close>

definition get_status_checks :: "db \<Rightarrow> StatusCheck list" where
  "get_status_checks d = to_list 1000 (status_checks d)"

section \<open>The states of the database\<close>

text \<open>
  The database starts empty, and only the handlers write to it: a state is reachable
  when requests to the login callback, to \<^verbatim>\<open>PUT /auth/profile\<close> and to \<^verbatim>\<open>POST /status\<close>
  lead to it, whatever these requests carry.
\<close>

inductive reachable :: "env \<Rightarrow> db \<Rightarrow> bool" for E :: env where
  init: "reachable E \<lparr>users = [], status_checks = []\<rparr>"
| login: "reachable E d \<Longrightarrow> reachable E (snd (google_auth E now uuid provider fault d))"
| profile: "reachable E d \<Longrightarrow> reachable E (snd (put_auth_profile E now auth_header body d))"
| status: "reachable E d \<Longrightarrow> reachable E (snd (create_status_check uuid now client_name d))"

section \<open>A sample deployment\<close>

text \<open>
  A small instance of what a deployment fixes, on which the handlers are run at concrete
  requests. The library instance knows six tokens, all for the subject \<open>g1\<close>: \<open>good\<close>,
  issued at time 0 under the key \<open>k\<close>; \<open>noexp\<close>, the same without an expiry; \<open>forged\<close>,
  with a signature under another key; \<open>aged\<close>, which expired at time 10; \<open>early\<close>,
  signed under \<open>k\<close>, without an expiry and not valid before time 1000; \<open>addressed\<close>,
  signed under \<open>k\<close>, without an expiry and with an audience. It refuses the unset key as
  the token library does.
\<close>

definition sample_claims :: claims where
  "sample_claims =
     \<lparr>sub = Some ''g1'', email_claim = Some ''a@x.org'', name_claim = Some ''Ann'',
      exp = None, nbf = None, iat = None, aud = None\<rparr>"

definition sample_lib :: jwt_lib where
  "sample_lib =
     \<lparr>compact = (\<lambda>j. ''good''),
      parse = (\<lambda>s.
        if s = ''good''
        then Some \<lparr>alg = ''HS256'', payload = sample_claims\<lparr>exp := Some 86400\<rparr>, signature = ''k''\<rparr>
        else if s = ''noexp''
        then Some \<lparr>alg = ''HS256'', payload = sample_claims, signature = ''k''\<rparr>
        else if s = ''forged''
        then Some \<lparr>alg = ''HS256'', payload = sample_claims\<lparr>exp := Some 86400\<rparr>, signature = ''z''\<rparr>
        else if s = ''aged''
        then Some \<lparr>alg = ''HS256'', payload = sample_claims\<lparr>exp := Some 10\<rparr>, signature = ''k''\<rparr>
        else if s = ''early''
        then Some \<lparr>alg = ''HS256'', payload = sample_claims\<lparr>nbf := Some 1000\<rparr>, signature = ''k''\<rparr>
        else if s = ''addressed''
        then Some \<lparr>alg = ''HS256'', payload = sample_claims\<lparr>aud := Some (AudStr ''other'')\<rparr>,
                    signature = ''k''\<rparr>
        else None),
      mac = (\<lambda>key a p. key),
      prepare_key = (\<lambda>k. case k of None \<Rightarrow> Inl (External ''Expected a string value'')
                              | Some s \<Rightarrow> Inr s)\<rparr>"

text \<open>Python's \<^verbatim>\<open>str\<close> on the exceptions a handler prints: an \<^verbatim>\<open>HTTPException\<close> gives its
  status code, a colon and its detail; a \<^verbatim>\<open>KeyError\<close> gives the key in quotes. The two
  validation errors are printed by no handler and have no text here.\<close>

fun str_nat :: "nat \<Rightarrow> string" where
  "str_nat n =
     (if n < 10 then [''0123456789'' ! n]
      else str_nat (n div 10) @ [''0123456789'' ! (n mod 10)])"

fun sample_message :: "exn \<Rightarrow> string" where
  "sample_message (HTTPException code detail) = str_nat code @ '': '' @ detail"
| "sample_message (KeyError k) = CHR 0x27 # k @ [CHR 0x27]"
| "sample_message IndexError = ''list index out of range''"
| "sample_message (External m) = m"
| "sample_message RequestValidationError = []"
| "sample_message ValidationError = []"

definition sample_env :: env where
  "sample_env =
     \<lparr>lib = sample_lib, SECRET_KEY = Some ''k'', FRONTEND_URL = Some ''https://app'',
      str_of = sample_message\<rparr>"

definition sample_user :: user_doc where
  "sample_user =
     \<lparr>id' = ''u-1'', google_id = ''g1'', email = ''a@x.org'', name = Some ''Ann'',
      picture = ''p.png'', about_me = Some ''Hello'', age = Some 30,
      created_at = 5, last_login = 7\<rparr>"

definition sample_db :: db where
  "sample_db = \<lparr>users = [sample_user], status_checks = []\<rparr>"

text \<open>The user info of a login of the subject \<open>g1\<close>.\<close>

definition sample_info :: "(string \<times> string) list" where
  "sample_info = [(''sub'', ''g1''), (''email'', ''ann@y.org''), (''name'', ''Ann B'')]"

text \<open>
  \<open>n\<close> successive \<^verbatim>\<open>POST /status\<close> requests of the client \<open>c\<close>; the request number \<open>k\<close>
  (from 0) is served at time \<open>k\<close> and draws an id of its own.
\<close>

fun sample_posts :: "nat \<Rightarrow> db \<Rightarrow> db" where
  "sample_posts 0 d = d"
| "sample_posts (Suc n) d =
     snd (create_status_check (''id-'' @ replicate n (CHR ''a'')) (int n) ''c'' (sample_posts n d))"

declare str_nat.simps [simp del]

section \<open>Token service: issuing and verifying\<close>

lemma verify_token_cases:
  "verify_token L secret now token =
     (case parse L token of
        None \<Rightarrow> Inl (HTTPException 401 ''Invalid token'')
      | Some j \<Rightarrow>
          if alg j \<noteq> ''HS256'' \<or> signature j \<noteq> mac L secret (alg j) (payload j)
          then Inl (HTTPException 401 ''Invalid token'')
          else (case validate_claims now (payload j) of
                  Inr p \<Rightarrow> Inr p
                | Inl ExpiredSignatureError \<Rightarrow> Inl (HTTPException 401 ''Token expired'')
                | Inl other \<Rightarrow> Inl (HTTPException 401 ''Invalid token'')))"
  by (simp add: verify_token_def jwt_decode_def split: option.splits)


lemma create_access_token_eq:
  "create_access_token L secret now data =
     compact L
       \<lparr>alg = ''HS256'',
        payload = \<lparr>sub = sub data, email_claim = email_claim data, name_claim = name_claim data,
                   exp = Some (now + 86400), nbf = None, iat = None, aud = None\<rparr>,
        signature = mac L secret ''HS256''
          \<lparr>sub = sub data, email_claim = email_claim data, name_claim = name_claim data,
           exp = Some (now + 86400), nbf = None, iat = None, aud = None\<rparr>\<rparr>"
  by (simp add: create_access_token_def jwt_encode_def timedelta_hours_def Let_def)

text \<open>
  C4. For every claim set, the token \<open>create_access_token\<close> issues at time \<open>now\<close> is the
  serialisation of a token with algorithm HS256, whose payload is the three claims of
  the input and \<^verbatim>\<open>exp\<close> set to \<open>now + 86400\<close> seconds (24 hours), signed under the
  secret: a function of the claims, the time and the secret alone. Where the library
  reads the token back, \<open>verify_token\<close> returns that payload at every time before
  \<open>now + 86400\<close> and answers "Token expired" from then on.
\<close>

theorem create_access_token_expiry:
  "create_access_token L secret now data =
     compact L
       \<lparr>alg = ''HS256'',
        payload = \<lparr>sub = sub data, email_claim = email_claim data, name_claim = name_claim data,
                   exp = Some (now + 86400), nbf = None, iat = None, aud = None\<rparr>,
        signature = mac L secret ''HS256''
          \<lparr>sub = sub data, email_claim = email_claim data, name_claim = name_claim data,
           exp = Some (now + 86400), nbf = None, iat = None, aud = None\<rparr>\<rparr>
   \<and> (parse L (create_access_token L secret now data) =
         Some \<lparr>alg = ''HS256'',
               payload = \<lparr>sub = sub data, email_claim = email_claim data,
                          name_claim = name_claim data,
                          exp = Some (now + 86400), nbf = None, iat = None, aud = None\<rparr>,
               signature = mac L secret ''HS256''
                 \<lparr>sub = sub data, email_claim = email_claim data, name_claim = name_claim data,
                  exp = Some (now + 86400), nbf = None, iat = None, aud = None\<rparr>\<rparr>
        \<longrightarrow> (\<forall>t. verify_token L secret t (create_access_token L secret now data) =
                   (if t < now + 86400
                    then Inr \<lparr>sub = sub data, email_claim = email_claim data,
                              name_claim = name_claim data,
                              exp = Some (now + 86400), nbf = None, iat = None, aud = None\<rparr>
                    else Inl (HTTPException 401 ''Token expired''))))"
  by (auto simp add: create_access_token_eq verify_token_cases validate_claims_def)

theorem create_access_token_expiry_witness:
  "create_access_token sample_lib ''k'' 0
       \<lparr>sub = Some ''g1'', email_claim = Some ''a@x.org'', name_claim = Some ''Ann''\<rparr> = ''good''
   \<and> verify_token sample_lib ''k'' 86399
       (create_access_token sample_lib ''k'' 0
          \<lparr>sub = Some ''g1'', email_claim = Some ''a@x.org'', name_claim = Some ''Ann''\<rparr>)
       = Inr (sample_claims\<lparr>exp := Some 86400\<rparr>)
   \<and> verify_token sample_lib ''k'' 86400
       (create_access_token sample_lib ''k'' 0
          \<lparr>sub = Some ''g1'', email_claim = Some ''a@x.org'', name_claim = Some ''Ann''\<rparr>)
       = Inl (HTTPException 401 ''Token expired'')"
proof -
  let ?data = "\<lparr>sub = Some ''g1'', email_claim = Some ''a@x.org'', name_claim = Some ''Ann''\<rparr>"
  have tok: "create_access_token sample_lib ''k'' 0 ?data = ''good''"
    by (simp add: create_access_token_eq sample_lib_def)
  have rt: "parse sample_lib (create_access_token sample_lib ''k'' 0 ?data) =
      Some \<lparr>alg = ''HS256'',
            payload = \<lparr>sub = sub ?data, email_claim = email_claim ?data,
                       name_claim = name_claim ?data,
                       exp = Some (0 + 86400), nbf = None, iat = None, aud = None\<rparr>,
            signature = mac sample_lib ''k'' ''HS256''
              \<lparr>sub = sub ?data, email_claim = email_claim ?data, name_claim = name_claim ?data,
               exp = Some (0 + 86400), nbf = None, iat = None, aud = None\<rparr>\<rparr>"
    unfolding tok by (simp add: sample_lib_def sample_claims_def)
  from create_access_token_expiry [of sample_lib "''k''" 0 ?data] rt
  have "\<forall>t. verify_token sample_lib ''k'' t (create_access_token sample_lib ''k'' 0 ?data) =
           (if t < 0 + 86400
            then Inr \<lparr>sub = sub ?data, email_claim = email_claim ?data,
                      name_claim = name_claim ?data,
                      exp = Some (0 + 86400), nbf = None, iat = None, aud = None\<rparr>
            else Inl (HTTPException 401 ''Token expired''))"
    by blast
  then show ?thesis using tok by (simp add: sample_claims_def)
qed

text \<open>
  C9, as amended. No \<^verbatim>\<open>exp\<close> claim is required: a token that is signed with HS256 under
  the secret and has no \<^verbatim>\<open>exp\<close> is accepted at the current time exactly when its \<^verbatim>\<open>iat\<close>
  and \<^verbatim>\<open>nbf\<close> claims, if it has them, are not after the current time and it has no
  non-empty \<^verbatim>\<open>aud\<close>; otherwise the answer is "Invalid token", never "Token expired". A
  token that is accepted at one time is accepted at every later time: it never expires.
\<close>

theorem verify_token_without_exp:
  assumes "parse L token = Some j"
    and "alg j = ''HS256''"
    and "signature j = mac L secret ''HS256'' (payload j)"
    and "exp (payload j) = None"
  shows "(\<forall>now. verify_token L secret now token =
            (if (\<exists>i. iat (payload j) = Some i \<and> now < i)
                \<or> (\<exists>n. nbf (payload j) = Some n \<and> now < n)
                \<or> (\<exists>a. aud (payload j) = Some a \<and> truthy a)
             then Inl (HTTPException 401 ''Invalid token'')
             else Inr (payload j)))
    \<and> (\<forall>t0 t. verify_token L secret t0 token = Inr (payload j) \<and> t0 \<le> t
          \<longrightarrow> verify_token L secret t token = Inr (payload j))"
proof -
  have eq: "verify_token L secret now token =
            (if (\<exists>i. iat (payload j) = Some i \<and> now < i)
                \<or> (\<exists>n. nbf (payload j) = Some n \<and> now < n)
                \<or> (\<exists>a. aud (payload j) = Some a \<and> truthy a)
             then Inl (HTTPException 401 ''Invalid token'')
             else Inr (payload j))" for now
    using assms by (auto simp: verify_token_cases validate_claims_def split: option.splits)
  have "verify_token L secret t token = Inr (payload j)"
    if "verify_token L secret t0 token = Inr (payload j)" and "t0 \<le> t" for t0 t
  proof -
    from that(1) have ok: "\<not> ((\<exists>i. iat (payload j) = Some i \<and> t0 < i)
                \<or> (\<exists>n. nbf (payload j) = Some n \<and> t0 < n)
                \<or> (\<exists>a. aud (payload j) = Some a \<and> truthy a))"
      unfolding eq [of t0] by (auto split: if_splits)
    with that(2) have "\<not> ((\<exists>i. iat (payload j) = Some i \<and> t < i)
                \<or> (\<exists>n. nbf (payload j) = Some n \<and> t < n)
                \<or> (\<exists>a. aud (payload j) = Some a \<and> truthy a))"
      by force
    then show ?thesis unfolding eq [of t] by simp
  qed
  with eq show ?thesis by blast
qed

theorem verify_token_without_exp_witness:
  "verify_token sample_lib ''k'' 0 ''noexp'' = Inr sample_claims
   \<and> verify_token sample_lib ''k'' 4102444800 ''noexp'' = Inr sample_claims
   \<and> verify_token sample_lib ''k'' 999 ''early'' = Inl (HTTPException 401 ''Invalid token'')
   \<and> verify_token sample_lib ''k'' 1000 ''early'' = Inr (sample_claims\<lparr>nbf := Some 1000\<rparr>)
   \<and> verify_token sample_lib ''k'' 4102444800 ''early'' = Inr (sample_claims\<lparr>nbf := Some 1000\<rparr>)"
proof -
  have p1: "parse sample_lib ''noexp'' =
      Some \<lparr>alg = ''HS256'', payload = sample_claims, signature = ''k''\<rparr>"
    by (simp add: sample_lib_def)
  have p2: "parse sample_lib ''early'' =
      Some \<lparr>alg = ''HS256'', payload = sample_claims\<lparr>nbf := Some 1000\<rparr>, signature = ''k''\<rparr>"
    by (simp add: sample_lib_def)
  have m: "mac sample_lib ''k'' ''HS256'' p = ''k''" for p
    by (simp add: sample_lib_def)
  from verify_token_without_exp [OF p1, of "''k''"]
  have a: "verify_token sample_lib ''k'' now ''noexp'' = Inr sample_claims" for now
    by (simp add: m sample_claims_def)
  from verify_token_without_exp [OF p2, of "''k''"]
  have b: "verify_token sample_lib ''k'' now ''early'' =
      (if now < 1000 then Inl (HTTPException 401 ''Invalid token'')
       else Inr (sample_claims\<lparr>nbf := Some 1000\<rparr>))" for now
    by (simp add: m sample_claims_def)
  show ?thesis by (simp add: a b)
qed

text \<open>
  As the specification states it, the property fails for a token that carries another
  registered claim: \<open>early\<close> and \<open>addressed\<close> are signed with HS256 under the secret and
  have no \<^verbatim>\<open>exp\<close>, and the first is refused before time 1000, the second at every time.
\<close>

theorem verify_token_without_exp_counterexample:
  "parse sample_lib ''early'' =
      Some \<lparr>alg = ''HS256'', payload = sample_claims\<lparr>nbf := Some 1000\<rparr>, signature = ''k''\<rparr>
   \<and> mac sample_lib ''k'' ''HS256'' (sample_claims\<lparr>nbf := Some 1000\<rparr>) = ''k''
   \<and> exp (sample_claims\<lparr>nbf := Some 1000\<rparr>) = None
   \<and> verify_token sample_lib ''k'' 0 ''early'' = Inl (HTTPException 401 ''Invalid token'')
   \<and> parse sample_lib ''addressed'' =
      Some \<lparr>alg = ''HS256'', payload = sample_claims\<lparr>aud := Some (AudStr ''other'')\<rparr>,
            signature = ''k''\<rparr>
   \<and> exp (sample_claims\<lparr>aud := Some (AudStr ''other'')\<rparr>) = None
   \<and> verify_token sample_lib ''k'' 0 ''addressed'' = Inl (HTTPException 401 ''Invalid token'')"
  by (simp add: verify_token_cases validate_claims_def sample_lib_def sample_claims_def)

section \<open>Authentication failures\<close>
















section \<open>Profile update: what it can change\<close>

lemma update_one_rel:
  assumes "\<And>x. R x x" and "\<And>x. flt x \<Longrightarrow> R x (upd x)"
  shows "list_all2 R xs (update_one flt upd xs)"
proof (induction xs)
  case Nil
  show ?case by simp
next
  case (Cons d ds)
  have "list_all2 R ds ds" using assms(1) by (simp add: list_all2_same)
  with Cons assms show ?case by simp
qed

lemma update_user_profile_users:
  "users (snd (update_user_profile pu cu d)) = users d
   \<or> users (snd (update_user_profile pu cu d)) =
        update_one (by_google_id (google_id cu)) (set_update_data pu) (users d)"
  by (simp add: update_user_profile_def Let_def split: option.splits)

lemma update_user_profile_status_checks:
  "status_checks (snd (update_user_profile pu cu d)) = status_checks d"
  by (simp add: update_user_profile_def Let_def split: option.splits)

lemma put_auth_profile_db:
  "snd (put_auth_profile E now auth_header body d) = d
   \<or> (\<exists>cu pu. get_current_user E now auth_header d = Inr cu
        \<and> snd (put_auth_profile E now auth_header body d) = snd (update_user_profile pu cu d))"
  by (auto simp: put_auth_profile_def split: request_body.splits sum.splits option.splits)

lemma sample_auth:
  "get_current_user sample_env 100 (Some ''Bearer good'') sample_db = Inr sample_user"
proof -
  have "verify_token_env sample_env 100 ''good'' = Inr (sample_claims\<lparr>exp := Some 86400\<rparr>)"
    by (simp add: verify_token_env_def secret_key_def verify_token_cases validate_claims_def
        sample_env_def sample_lib_def sample_claims_def)
  then show ?thesis
    by (simp add: get_current_user_def startswith_def bearer_token_def sample_claims_def
        sample_db_def sample_user_def find_one_def by_google_id_def UserProfile_def)
qed

text \<open>
  C5. A \<^verbatim>\<open>PUT /auth/profile\<close> request, whatever its header and body, leaves the
  \<^verbatim>\<open>id\<close>, \<^verbatim>\<open>google_id\<close>, \<^verbatim>\<open>email\<close>, \<^verbatim>\<open>picture\<close>, \<^verbatim>\<open>created_at\<close> and \<^verbatim>\<open>last_login\<close> of every
  stored document as they were, keeps the number and the order of the documents, and,
  when the caller is authenticated, changes no document of another \<^verbatim>\<open>google_id\<close>. Only
  \<^verbatim>\<open>name\<close>, \<^verbatim>\<open>about_me\<close> and \<^verbatim>\<open>age\<close> of the caller's document can differ afterwards.
\<close>

theorem put_auth_profile_frame:
  "list_all2
     (\<lambda>u u'. id' u' = id' u \<and> google_id u' = google_id u \<and> email u' = email u
        \<and> picture u' = picture u \<and> created_at u' = created_at u \<and> last_login u' = last_login u)
     (users d) (users (snd (put_auth_profile E now auth_header body d)))
   \<and> (\<forall>cu. get_current_user E now auth_header d = Inr cu \<longrightarrow>
         list_all2 (\<lambda>u u'. google_id u \<noteq> google_id cu \<longrightarrow> u' = u)
           (users d) (users (snd (put_auth_profile E now auth_header body d))))
   \<and> status_checks (snd (put_auth_profile E now auth_header body d)) = status_checks d"
proof -
  let ?R = "\<lambda>u u'. id' u' = id' u \<and> google_id u' = google_id u \<and> email u' = email u
        \<and> picture u' = picture u \<and> created_at u' = created_at u \<and> last_login u' = last_login u"
  let ?d' = "snd (put_auth_profile E now auth_header body d)"
  consider (same) "?d' = d"
    | (upd) cu pu where "get_current_user E now auth_header d = Inr cu"
        and "?d' = snd (update_user_profile pu cu d)"
    using put_auth_profile_db [of E now auth_header body d] by blast
  then show ?thesis
  proof cases
    case same
    then show ?thesis by (simp add: list_all2_same)
  next
    case upd
    have sc: "status_checks ?d' = status_checks d"
      by (simp add: upd(2) update_user_profile_status_checks)
    consider (u1) "users ?d' = users d"
      | (u2) "users ?d' = update_one (by_google_id (google_id cu)) (set_update_data pu) (users d)"
      using update_user_profile_users [of pu cu d] upd(2) by auto
    then show ?thesis
    proof cases
      case u1
      then show ?thesis using sc by (simp add: list_all2_same)
    next
      case u2
      have "list_all2 ?R (users d) (users ?d')"
        unfolding u2 by (rule update_one_rel) (simp_all add: set_update_data_def)
      moreover have "list_all2 (\<lambda>u u'. google_id u \<noteq> google_id cu \<longrightarrow> u' = u) (users d) (users ?d')"
        unfolding u2 by (rule update_one_rel) (simp_all add: by_google_id_def)
      ultimately show ?thesis using sc upd(1) by simp
    qed
  qed
qed

theorem put_auth_profile_frame_witness:
  "users (snd (put_auth_profile sample_env 100 (Some ''Bearer good'')
      (Decoded (Some (JObj
         [(''name'', JStr ''Bob''), (''email'', JStr ''evil@x.org''), (''google_id'', JStr ''g2''),
          (''id'', JStr ''u-9''), (''picture'', JStr ''q.png''), (''created_at'', JInt 0)])))
      sample_db))
   = [sample_user\<lparr>name := Some ''Bob''\<rparr>]
   \<and> list_all2
     (\<lambda>u u'. id' u' = id' u \<and> google_id u' = google_id u \<and> email u' = email u
        \<and> picture u' = picture u \<and> created_at u' = created_at u \<and> last_login u' = last_login u)
     (users sample_db) [sample_user\<lparr>name := Some ''Bob''\<rparr>]"
proof -
  let ?body = "Decoded (Some (JObj
         [(''name'', JStr ''Bob''), (''email'', JStr ''evil@x.org''), (''google_id'', JStr ''g2''),
          (''id'', JStr ''u-9''), (''picture'', JStr ''q.png''), (''created_at'', JInt 0)]))"
  have run: "users (snd (put_auth_profile sample_env 100 (Some ''Bearer good'') ?body sample_db))
      = [sample_user\<lparr>name := Some ''Bob''\<rparr>]"
    unfolding put_auth_profile_def sample_auth
    by (simp add: parse_UserProfileUpdate_def optional_field_def
        update_user_profile_def Let_def sample_db_def by_google_id_def
        sample_user_def find_one_def set_update_data_def UserProfile_def)
  from put_auth_profile_frame [of sample_db sample_env 100 "Some ''Bearer good''" ?body]
  show ?thesis unfolding run by simp
qed

section \<open>Profile update: a rejected body\<close>








section \<open>Login callback: the upsert\<close>

lemma set_user_data_all: "set_user_data ud d = ud"
  by (cases ud, cases d) (simp add: set_user_data_def)

lemma find_update_one:
  assumes "flt new" and "list_ex flt xs"
  shows "List.find flt (update_one flt (\<lambda>x. new) xs) = Some new"
  using assms(2) by (induction xs) (auto simp: assms(1))

lemma find_append_new:
  assumes "flt new" and "\<not> list_ex flt xs"
  shows "List.find flt (xs @ [new]) = Some new"
  using assms by (induction xs) auto

lemma filter_update_one:
  assumes "flt new"
  shows "length (filter flt (update_one flt (\<lambda>x. new) xs)) = length (filter flt xs)"
  by (induction xs) (auto simp: assms)

lemma find_one_upsert:
  assumes "flt new"
  shows "find_one flt (update_one_upsert flt (set_user_data new) new xs) = Some new"
proof -
  have "set_user_data new = (\<lambda>x. new)" by (rule ext) (rule set_user_data_all)
  then show ?thesis
    using assms by (simp add: find_one_def update_one_upsert_def find_update_one find_append_new)
qed

lemma length_update_one: "length (update_one flt upd xs) = length xs"
  by (induction xs) auto

lemma map_update_one:
  assumes "\<And>x. flt x \<Longrightarrow> f (upd x) = f x"
  shows "map f (update_one flt upd xs) = map f xs"
  by (induction xs) (simp_all add: assms)

lemma filter_upsert_single:
  assumes "flt new" and "length (filter flt xs) \<le> 1"
  shows "filter flt (update_one_upsert flt (set_user_data new) new xs) = [new]"
proof -
  have eq: "set_user_data new = (\<lambda>x. new)" by (rule ext) (rule set_user_data_all)
  show ?thesis
  proof (cases "list_ex flt xs")
    case False
    then have "filter flt xs = []" by (auto simp: list_ex_iff filter_empty_conv)
    with False assms(1) show ?thesis by (simp add: update_one_upsert_def)
  next
    case True
    let ?ys = "filter flt (update_one flt (\<lambda>x. new) xs)"
    from True have "filter flt xs \<noteq> []" by (auto simp: list_ex_iff filter_empty_conv)
    with assms(2) have "length (filter flt xs) = 1" by (cases "filter flt xs") auto
    then have len: "length ?ys = 1" using assms(1) by (simp add: filter_update_one)
    then obtain y where y: "?ys = [y]" by (cases ?ys) auto
    have "List.find flt (update_one flt (\<lambda>x. new) xs) = Some new"
      using assms(1) True by (rule find_update_one)
    then have "new \<in> set ?ys" using assms(1) by (auto simp: find_Some_iff in_set_conv_nth)
    with y have "y = new" by simp
    with y True show ?thesis by (simp add: update_one_upsert_def eq)
  qed
qed

lemma user_data_google_id: "by_google_id s (user_data uuid now user_info s em nm)"
  by (simp add: by_google_id_def user_data_def)

text \<open>What a login does when the provider gives the three keys and the write does not
  fail: the write is made, whatever becomes of the token.\<close>

lemma google_auth_try_written:
  assumes "map_of user_info ''sub'' = Some s"
    and "map_of user_info ''email'' = Some em"
    and "map_of user_info ''name'' = Some nm"
  shows "snd (google_auth_try E now uuid (Inr (Some user_info)) None d) =
           d\<lparr>users := update_one_upsert (by_google_id s)
                        (set_user_data (user_data uuid now user_info s em nm))
                        (user_data uuid now user_info s em nm) (users d)\<rparr>"
proof -
  from assms(1) have "user_info \<noteq> []" by auto
  with assms show ?thesis
    by (simp add: google_auth_try_def Let_def split: sum.splits)
qed

lemma google_auth_db:
  "snd (google_auth E now uuid provider fault d) = snd (google_auth_try E now uuid provider fault d)"
  by (simp add: google_auth_def split: prod.splits sum.splits)

lemma google_auth_written:
  assumes "map_of user_info ''sub'' = Some s"
    and "map_of user_info ''email'' = Some em"
    and "map_of user_info ''name'' = Some nm"
  shows "snd (google_auth E now uuid (Inr (Some user_info)) None d) =
           d\<lparr>users := update_one_upsert (by_google_id s)
                        (set_user_data (user_data uuid now user_info s em nm))
                        (user_data uuid now user_info s em nm) (users d)\<rparr>"
  unfolding google_auth_db using assms by (rule google_auth_try_written)

text \<open>And under a key the library accepts, the login completes: the answer is the
  redirect to the front-end's callback with the token of the three claims.\<close>

lemma google_auth_try_completes:
  assumes "map_of user_info ''sub'' = Some s"
    and "map_of user_info ''email'' = Some em"
    and "map_of user_info ''name'' = Some nm"
    and "secret_key E = Inr k"
  shows "fst (google_auth_try E now uuid (Inr (Some user_info)) None d) =
           Inr (frontend_url E @ ''/auth/callback?token='' @
                  create_access_token (lib E) k now
                    \<lparr>sub = Some s, email_claim = Some em, name_claim = Some nm\<rparr>)"
proof -
  from assms(1) have "user_info \<noteq> []" by auto
  with assms show ?thesis
    by (simp add: google_auth_try_def Let_def)
qed

lemma google_auth_completes:
  assumes "map_of user_info ''sub'' = Some s"
    and "map_of user_info ''email'' = Some em"
    and "map_of user_info ''name'' = Some nm"
    and "secret_key E = Inr k"
  shows "fst (google_auth E now uuid (Inr (Some user_info)) None d) =
           Inr (RedirectResponse (frontend_url E @ ''/auth/callback?token='' @
                  create_access_token (lib E) k now
                    \<lparr>sub = Some s, email_claim = Some em, name_claim = Some nm\<rparr>))"
  using google_auth_try_completes [OF assms, of now uuid d]
  by (cases "google_auth_try E now uuid (Inr (Some user_info)) None d")
    (simp add: google_auth_def)

lemma google_auth_try_users:
  "users (snd (google_auth_try E now uuid provider fault d)) = users d
   \<or> (\<exists>u. users (snd (google_auth_try E now uuid provider fault d)) =
          update_one_upsert (by_google_id (google_id u)) (set_user_data u) u (users d))"
proof -
  have upsert: "\<exists>u. update_one_upsert (by_google_id s)
            (set_user_data (user_data uuid now user_info s em nm))
            (user_data uuid now user_info s em nm) (users d) =
          update_one_upsert (by_google_id (google_id u)) (set_user_data u) u (users d)"
    for user_info s em nm
    by (rule exI [where x = "user_data uuid now user_info s em nm"]) (simp add: user_data_def)
  show ?thesis
    using upsert
    by (simp add: google_auth_try_def Let_def split: sum.splits option.splits)
qed

section \<open>One document for each subject\<close>

lemma upsert_distinct:
  assumes "distinct (map google_id xs)"
  shows "distinct (map google_id (update_one_upsert (by_google_id (google_id u)) (set_user_data u) u xs))"
proof (cases "list_ex (by_google_id (google_id u)) xs")
  case True
  have "map google_id (update_one (by_google_id (google_id u)) (set_user_data u) xs) = map google_id xs"
    by (rule map_update_one) (simp add: set_user_data_all by_google_id_def)
  with True assms show ?thesis by (simp add: update_one_upsert_def)
next
  case False
  then have "google_id u \<notin> google_id ` set xs"
    by (auto simp: list_ex_iff by_google_id_def)
  with False assms show ?thesis by (simp add: update_one_upsert_def)
qed

lemma put_auth_profile_google_ids:
  "map google_id (users (snd (put_auth_profile E now auth_header body d))) = map google_id (users d)"
proof -
  have upd: "map google_id (update_one flt (set_update_data pu) (users d)) = map google_id (users d)"
    for flt pu
    by (rule map_update_one) (simp add: set_update_data_def)
  from put_auth_profile_db [of E now auth_header body d] show ?thesis
  proof (elim disjE exE conjE)
    assume "snd (put_auth_profile E now auth_header body d) = d"
    then show ?thesis by simp
  next
    fix cu pu
    assume "snd (put_auth_profile E now auth_header body d) = snd (update_user_profile pu cu d)"
    with update_user_profile_users [of pu cu d] upd show ?thesis by auto
  qed
qed

lemma reachable_distinct: "reachable E d \<Longrightarrow> distinct (map google_id (users d))"
proof (induction rule: reachable.induct)
  case init
  show ?case by simp
next
  case (login d now uuid provider fault)
  from google_auth_try_users [of E now uuid provider fault d] login.IH show ?case
    by (auto simp: google_auth_db upsert_distinct)
next
  case (profile d now auth_header body)
  then show ?case by (simp add: put_auth_profile_google_ids)
next
  case (status d uuid now client_name)
  then show ?case by (simp add: create_status_check_def Let_def)
qed

lemma distinct_filter_google_id:
  assumes "distinct (map google_id xs)"
  shows "length (filter (by_google_id s) xs) \<le> 1"
  using assms
proof (induction xs)
  case Nil
  show ?case by simp
next
  case (Cons x xs)
  show ?case
  proof (cases "google_id x = s")
    case True
    with Cons.prems have "filter (by_google_id s) xs = []"
      by (auto simp: filter_empty_conv by_google_id_def image_iff)
    moreover from True have "by_google_id s x" by (simp add: by_google_id_def)
    ultimately show ?thesis by simp
  next
    case False
    then have "\<not> by_google_id s x" by (simp add: by_google_id_def)
    with Cons show ?thesis by simp
  qed
qed

text \<open>The sample deployment at a login of the subject \<open>g1\<close>.\<close>

lemma sample_info_keys:
  "map_of sample_info ''sub'' = Some ''g1''"
  "map_of sample_info ''email'' = Some ''ann@y.org''"
  "map_of sample_info ''name'' = Some ''Ann B''"
  by (simp_all add: sample_info_def)

lemma sample_secret_key: "secret_key sample_env = Inr ''k''"
  by (simp add: secret_key_def sample_env_def sample_lib_def)

lemma sample_token:
  "frontend_url sample_env = ''https://app''"
  "create_access_token (lib sample_env) k now data = ''good''"
  by (simp_all add: frontend_url_def create_access_token_eq sample_env_def sample_lib_def)

lemma sample_user_data:
  "user_data uuid now sample_info ''g1'' ''ann@y.org'' ''Ann B'' =
     \<lparr>id' = uuid, google_id = ''g1'', email = ''ann@y.org'', name = Some ''Ann B'',
      picture = [], about_me = Some [], age = None, created_at = now, last_login = now\<rparr>"
  by (simp add: user_data_def sample_info_def)

section \<open>Login callback: what a completed login leaves\<close>

text \<open>
  C2. In every reachable state of the database, take two successive login callbacks
  for which the provider gives user info with the same \<^verbatim>\<open>sub\<close> \<open>s\<close>, an \<^verbatim>\<open>email\<close> and a
  \<^verbatim>\<open>name\<close>, the write does not fail and the library accepts \<^verbatim>\<open>SECRET_KEY\<close>. Both
  complete: each answers with the redirect to the front-end's callback. After each of
  them exactly one document has \<^verbatim>\<open>google_id\<close> \<open>s\<close>: the document \<^verbatim>\<open>user_data\<close> of that
  login, whose \<^verbatim>\<open>last_login\<close> is the time of that login and whose \<^verbatim>\<open>google_id\<close> is \<open>s\<close>.
  The second login adds no document and changes no \<^verbatim>\<open>google_id\<close>.
\<close>

theorem two_logins_one_document:
  assumes "reachable E d"
    and "map_of info1 ''sub'' = Some s"
    and "map_of info1 ''email'' = Some em1"
    and "map_of info1 ''name'' = Some nm1"
    and "map_of info2 ''sub'' = Some s"
    and "map_of info2 ''email'' = Some em2"
    and "map_of info2 ''name'' = Some nm2"
    and "secret_key E = Inr k"
  shows "fst (google_auth E t1 uuid1 (Inr (Some info1)) None d) =
           Inr (RedirectResponse (frontend_url E @ ''/auth/callback?token='' @
                  create_access_token (lib E) k t1
                    \<lparr>sub = Some s, email_claim = Some em1, name_claim = Some nm1\<rparr>))
    \<and> fst (google_auth E t2 uuid2 (Inr (Some info2)) None
              (snd (google_auth E t1 uuid1 (Inr (Some info1)) None d))) =
           Inr (RedirectResponse (frontend_url E @ ''/auth/callback?token='' @
                  create_access_token (lib E) k t2
                    \<lparr>sub = Some s, email_claim = Some em2, name_claim = Some nm2\<rparr>))
    \<and> filter (by_google_id s) (users (snd (google_auth E t1 uuid1 (Inr (Some info1)) None d)))
        = [user_data uuid1 t1 info1 s em1 nm1]
    \<and> filter (by_google_id s)
        (users (snd (google_auth E t2 uuid2 (Inr (Some info2)) None
                  (snd (google_auth E t1 uuid1 (Inr (Some info1)) None d)))))
        = [user_data uuid2 t2 info2 s em2 nm2]
    \<and> last_login (user_data uuid1 t1 info1 s em1 nm1) = t1
    \<and> last_login (user_data uuid2 t2 info2 s em2 nm2) = t2
    \<and> google_id (user_data uuid1 t1 info1 s em1 nm1) = s
    \<and> google_id (user_data uuid2 t2 info2 s em2 nm2) = s
    \<and> map google_id
        (users (snd (google_auth E t2 uuid2 (Inr (Some info2)) None
                  (snd (google_auth E t1 uuid1 (Inr (Some info1)) None d)))))
        = map google_id (users (snd (google_auth E t1 uuid1 (Inr (Some info1)) None d)))"
proof -
  let ?u1 = "user_data uuid1 t1 info1 s em1 nm1"
  let ?u2 = "user_data uuid2 t2 info2 s em2 nm2"
  let ?d1 = "snd (google_auth E t1 uuid1 (Inr (Some info1)) None d)"
  let ?d2 = "snd (google_auth E t2 uuid2 (Inr (Some info2)) None ?d1)"
  have one: "length (filter (by_google_id s) (users d)) \<le> 1"
    using assms(1) by (intro distinct_filter_google_id reachable_distinct)
  have d1: "users ?d1 = update_one_upsert (by_google_id s) (set_user_data ?u1) ?u1 (users d)"
    by (simp add: google_auth_written [OF assms(2-4)])
  have d2: "users ?d2 = update_one_upsert (by_google_id s) (set_user_data ?u2) ?u2 (users ?d1)"
    by (simp add: google_auth_written [OF assms(5-7)])
  have f1: "filter (by_google_id s) (users ?d1) = [?u1]"
    unfolding d1 using user_data_google_id one by (rule filter_upsert_single)
  then have one': "length (filter (by_google_id s) (users ?d1)) \<le> 1" by simp
  have f2: "filter (by_google_id s) (users ?d2) = [?u2]"
    unfolding d2 using user_data_google_id one' by (rule filter_upsert_single)
  from f1 have ex: "list_ex (by_google_id s) (users ?d1)"
    by (metis filter_empty_conv list_ex_iff not_Cons_self2)
  have "map google_id (update_one (by_google_id s) (set_user_data ?u2) (users ?d1))
      = map google_id (users ?d1)"
    by (rule map_update_one) (simp add: set_user_data_all by_google_id_def user_data_def)
  with ex have ids: "map google_id (users ?d2) = map google_id (users ?d1)"
    unfolding d2 by (simp add: update_one_upsert_def)
  have r1: "fst (google_auth E t1 uuid1 (Inr (Some info1)) None d) =
           Inr (RedirectResponse (frontend_url E @ ''/auth/callback?token='' @
                  create_access_token (lib E) k t1
                    \<lparr>sub = Some s, email_claim = Some em1, name_claim = Some nm1\<rparr>))"
    using assms(2-4,8) by (rule google_auth_completes)
  have r2: "fst (google_auth E t2 uuid2 (Inr (Some info2)) None ?d1) =
           Inr (RedirectResponse (frontend_url E @ ''/auth/callback?token='' @
                  create_access_token (lib E) k t2
                    \<lparr>sub = Some s, email_claim = Some em2, name_claim = Some nm2\<rparr>))"
    using assms(5-7,8) by (rule google_auth_completes)
  have fields: "last_login ?u1 = t1" "last_login ?u2 = t2" "google_id ?u1 = s" "google_id ?u2 = s"
    by (simp_all add: user_data_def)
  from r1 r2 f1 f2 fields ids show ?thesis by (intro conjI)
qed

theorem two_logins_one_document_witness:
  "fst (google_auth sample_env 200 ''u-2'' (Inr (Some sample_info)) None
          \<lparr>users = [], status_checks = []\<rparr>)
     = Inr (RedirectResponse ''https://app/auth/callback?token=good'')
   \<and> fst (google_auth sample_env 300 ''u-3'' (Inr (Some sample_info)) None
          (snd (google_auth sample_env 200 ''u-2'' (Inr (Some sample_info)) None
                  \<lparr>users = [], status_checks = []\<rparr>)))
     = Inr (RedirectResponse ''https://app/auth/callback?token=good'')
   \<and> filter (by_google_id ''g1'')
        (users (snd (google_auth sample_env 200 ''u-2'' (Inr (Some sample_info)) None
                  \<lparr>users = [], status_checks = []\<rparr>)))
     = [\<lparr>id' = ''u-2'', google_id = ''g1'', email = ''ann@y.org'', name = Some ''Ann B'',
         picture = [], about_me = Some [], age = None, created_at = 200, last_login = 200\<rparr>]
   \<and> filter (by_google_id ''g1'')
        (users (snd (google_auth sample_env 300 ''u-3'' (Inr (Some sample_info)) None
          (snd (google_auth sample_env 200 ''u-2'' (Inr (Some sample_info)) None
                  \<lparr>users = [], status_checks = []\<rparr>)))))
     = [\<lparr>id' = ''u-3'', google_id = ''g1'', email = ''ann@y.org'', name = Some ''Ann B'',
         picture = [], about_me = Some [], age = None, created_at = 300, last_login = 300\<rparr>]
   \<and> map google_id
        (users (snd (google_auth sample_env 300 ''u-3'' (Inr (Some sample_info)) None
          (snd (google_auth sample_env 200 ''u-2'' (Inr (Some sample_info)) None
                  \<lparr>users = [], status_checks = []\<rparr>)))))
     = map google_id
        (users (snd (google_auth sample_env 200 ''u-2'' (Inr (Some sample_info)) None
                  \<lparr>users = [], status_checks = []\<rparr>)))"
proof -
  have "reachable sample_env \<lparr>users = [], status_checks = []\<rparr>"
    by (rule reachable.init)
  from two_logins_one_document [OF this sample_info_keys sample_info_keys sample_secret_key,
      of 200 "''u-2''" 300 "''u-3''"]
  show ?thesis by (simp add: sample_token sample_user_data)
qed

text \<open>
  C3. A login callback for which the provider gives user info with \<^verbatim>\<open>sub\<close>, \<^verbatim>\<open>email\<close>
  and \<^verbatim>\<open>name\<close> and whose write does not fail leaves the subject's document with
  \<^verbatim>\<open>about_me\<close> the empty string and \<^verbatim>\<open>age\<close> null, whatever the database held before, a
  stored profile of the subject included; under a \<^verbatim>\<open>SECRET_KEY\<close> the library accepts it
  completes, with the redirect to the front-end's callback.
\<close>

theorem login_resets_profile:
  assumes "map_of user_info ''sub'' = Some s"
    and "map_of user_info ''email'' = Some em"
    and "map_of user_info ''name'' = Some nm"
  shows "(\<exists>u. find_one (by_google_id s)
                (users (snd (google_auth E now uuid (Inr (Some user_info)) None d))) = Some u
            \<and> about_me u = Some '''' \<and> age u = None)
    \<and> (\<forall>k. secret_key E = Inr k \<longrightarrow>
          fst (google_auth E now uuid (Inr (Some user_info)) None d) =
            Inr (RedirectResponse (frontend_url E @ ''/auth/callback?token='' @
                   create_access_token (lib E) k now
                     \<lparr>sub = Some s, email_claim = Some em, name_claim = Some nm\<rparr>)))"
proof -
  let ?u = "user_data uuid now user_info s em nm"
  have "find_one (by_google_id s)
      (users (snd (google_auth E now uuid (Inr (Some user_info)) None d))) = Some ?u"
    by (simp add: google_auth_written [OF assms] find_one_upsert user_data_google_id)
  moreover have "about_me ?u = Some ''''" "age ?u = None"
    by (simp_all add: user_data_def)
  ultimately have "\<exists>u. find_one (by_google_id s)
                (users (snd (google_auth E now uuid (Inr (Some user_info)) None d))) = Some u
            \<and> about_me u = Some '''' \<and> age u = None"
    by blast
  moreover have "fst (google_auth E now uuid (Inr (Some user_info)) None d) =
            Inr (RedirectResponse (frontend_url E @ ''/auth/callback?token='' @
                   create_access_token (lib E) k now
                     \<lparr>sub = Some s, email_claim = Some em, name_claim = Some nm\<rparr>))"
    if "secret_key E = Inr k" for k
    using assms that by (rule google_auth_completes)
  ultimately show ?thesis by blast
qed

theorem login_resets_profile_witness:
  "find_one (by_google_id ''g1'') (users sample_db) = Some sample_user
   \<and> about_me sample_user = Some ''Hello'' \<and> age sample_user = Some 30
   \<and> fst (google_auth sample_env 200 ''u-2'' (Inr (Some sample_info)) None sample_db)
       = Inr (RedirectResponse ''https://app/auth/callback?token=good'')
   \<and> (\<exists>u. find_one (by_google_id ''g1'')
            (users (snd (google_auth sample_env 200 ''u-2'' (Inr (Some sample_info)) None
                      sample_db))) = Some u
        \<and> about_me u = Some '''' \<and> age u = None)"
proof -
  have "find_one (by_google_id ''g1'') (users sample_db) = Some sample_user
      \<and> about_me sample_user = Some ''Hello'' \<and> age sample_user = Some 30"
    by (simp add: find_one_def by_google_id_def sample_db_def sample_user_def)
  with login_resets_profile [OF sample_info_keys, of sample_env 200 "''u-2''" sample_db]
  show ?thesis by (simp add: sample_secret_key sample_token)
qed

text \<open>
  C10. A login callback of a subject who already has a document, for which the
  provider gives user info with \<^verbatim>\<open>sub\<close>, \<^verbatim>\<open>email\<close> and \<^verbatim>\<open>name\<close> and whose write does not
  fail, replaces that document's \<^verbatim>\<open>id\<close> by the UUID generated in this request and its
  \<^verbatim>\<open>created_at\<close> by the current time, whatever they were; no document is added. Under a
  \<^verbatim>\<open>SECRET_KEY\<close> the library accepts the login completes, with the redirect to the
  front-end's callback.
\<close>

theorem login_replaces_id_and_created_at:
  assumes "map_of user_info ''sub'' = Some s"
    and "map_of user_info ''email'' = Some em"
    and "map_of user_info ''name'' = Some nm"
    and "find_one (by_google_id s) (users d) = Some old"
  shows "(\<exists>u. find_one (by_google_id s)
                (users (snd (google_auth E now uuid (Inr (Some user_info)) None d))) = Some u
            \<and> id' u = uuid \<and> created_at u = now)
    \<and> length (users (snd (google_auth E now uuid (Inr (Some user_info)) None d)))
        = length (users d)
    \<and> (\<forall>k. secret_key E = Inr k \<longrightarrow>
          fst (google_auth E now uuid (Inr (Some user_info)) None d) =
            Inr (RedirectResponse (frontend_url E @ ''/auth/callback?token='' @
                   create_access_token (lib E) k now
                     \<lparr>sub = Some s, email_claim = Some em, name_claim = Some nm\<rparr>)))"
proof -
  let ?u = "user_data uuid now user_info s em nm"
  let ?d' = "snd (google_auth E now uuid (Inr (Some user_info)) None d)"
  have "find_one (by_google_id s) (users ?d') = Some ?u"
    by (simp add: google_auth_written [OF assms(1-3)] find_one_upsert user_data_google_id)
  moreover have "id' ?u = uuid" "created_at ?u = now"
    by (simp_all add: user_data_def)
  ultimately have a: "\<exists>u. find_one (by_google_id s) (users ?d') = Some u
            \<and> id' u = uuid \<and> created_at u = now"
    by blast
  from assms(4) have "list_ex (by_google_id s) (users d)"
    by (auto simp: find_one_def find_Some_iff list_ex_iff)
  then have b: "length (users ?d') = length (users d)"
    by (simp add: google_auth_written [OF assms(1-3)] update_one_upsert_def length_update_one)
  have "fst (google_auth E now uuid (Inr (Some user_info)) None d) =
            Inr (RedirectResponse (frontend_url E @ ''/auth/callback?token='' @
                   create_access_token (lib E) k now
                     \<lparr>sub = Some s, email_claim = Some em, name_claim = Some nm\<rparr>))"
    if "secret_key E = Inr k" for k
    using assms(1-3) that by (rule google_auth_completes)
  with a b show ?thesis by blast
qed

theorem login_replaces_id_and_created_at_witness:
  "find_one (by_google_id ''g1'') (users sample_db) = Some sample_user
   \<and> id' sample_user = ''u-1'' \<and> created_at sample_user = 5
   \<and> fst (google_auth sample_env 200 ''u-2'' (Inr (Some sample_info)) None sample_db)
       = Inr (RedirectResponse ''https://app/auth/callback?token=good'')
   \<and> (\<exists>u. find_one (by_google_id ''g1'')
            (users (snd (google_auth sample_env 200 ''u-2'' (Inr (Some sample_info)) None
                      sample_db))) = Some u
        \<and> id' u = ''u-2'' \<and> created_at u = 200)
   \<and> length (users (snd (google_auth sample_env 200 ''u-2'' (Inr (Some sample_info)) None
                      sample_db))) = 1"
proof -
  have old: "find_one (by_google_id ''g1'') (users sample_db) = Some sample_user"
    by (simp add: find_one_def by_google_id_def sample_db_def sample_user_def)
  have "id' sample_user = ''u-1'' \<and> created_at sample_user = 5 \<and> length (users sample_db) = 1"
    by (simp add: sample_user_def sample_db_def)
  with old login_replaces_id_and_created_at [OF sample_info_keys old, of sample_env 200 "''u-2''"]
  show ?thesis by (simp add: sample_secret_key sample_token)
qed

section \<open>Login callback: failures\<close>

text \<open>
  C6. The login callback always answers with a redirect. When the \<^verbatim>\<open>try\<close> block raises
  an exception \<open>e\<close>, the redirect goes to the front-end's \<^verbatim>\<open>/auth/error\<close> with
  \<^verbatim>\<open>str(e)\<close> as the \<^verbatim>\<open>message\<close> parameter. This is what happens when the provider
  call raises (a provider error, a state mismatch), when the user info is missing or
  empty, when one of \<^verbatim>\<open>sub\<close>, \<^verbatim>\<open>email\<close>, \<^verbatim>\<open>name\<close> is absent from it, when the database
  write raises, and when the token library refuses \<^verbatim>\<open>SECRET_KEY\<close>. In the first four
  cases the database is as it was; in the last the exception comes after the write, and
  the subject's document has been written when the error redirect is sent. In the one
  remaining case the block raises nothing and the redirect goes to the front-end's
  callback.
\<close>

theorem google_auth_always_redirects:
  "(\<exists>url. fst (google_auth E now uuid provider fault d) = Inr (RedirectResponse url))
   \<and> (\<forall>e d'. google_auth_try E now uuid provider fault d = (Inl e, d') \<longrightarrow>
         google_auth E now uuid provider fault d =
           (Inr (RedirectResponse (frontend_url E @ ''/auth/error?message='' @ str_of E e)), d'))
   \<and> (\<forall>e. provider = Inl e \<longrightarrow>
         google_auth_try E now uuid provider fault d = (Inl e, d))
   \<and> (provider = Inr None \<or> provider = Inr (Some []) \<longrightarrow>
         google_auth_try E now uuid provider fault d =
           (Inl (HTTPException 400 ''Failed to get user info from Google''), d))
   \<and> (\<forall>user_info. provider = Inr (Some user_info) \<and> user_info \<noteq> []
         \<and> (map_of user_info ''sub'' = None \<or> map_of user_info ''email'' = None
            \<or> map_of user_info ''name'' = None) \<longrightarrow>
         (\<exists>k. google_auth_try E now uuid provider fault d = (Inl (KeyError k), d)))
   \<and> (\<forall>user_info s em nm e. provider = Inr (Some user_info)
         \<and> map_of user_info ''sub'' = Some s \<and> map_of user_info ''email'' = Some em
         \<and> map_of user_info ''name'' = Some nm \<and> fault = Some e \<longrightarrow>
         google_auth_try E now uuid provider fault d = (Inl e, d))
   \<and> (\<forall>user_info s em nm e. provider = Inr (Some user_info)
         \<and> map_of user_info ''sub'' = Some s \<and> map_of user_info ''email'' = Some em
         \<and> map_of user_info ''name'' = Some nm \<and> fault = None \<and> secret_key E = Inl e \<longrightarrow>
         google_auth_try E now uuid provider fault d =
           (Inl e, d\<lparr>users := update_one_upsert (by_google_id s)
                                (set_user_data (user_data uuid now user_info s em nm))
                                (user_data uuid now user_info s em nm) (users d)\<rparr>))
   \<and> (\<forall>user_info s em nm k. provider = Inr (Some user_info)
         \<and> map_of user_info ''sub'' = Some s \<and> map_of user_info ''email'' = Some em
         \<and> map_of user_info ''name'' = Some nm \<and> fault = None \<and> secret_key E = Inr k \<longrightarrow>
         google_auth E now uuid provider fault d =
           (Inr (RedirectResponse (frontend_url E @ ''/auth/callback?token='' @
                   create_access_token (lib E) k now
                     \<lparr>sub = Some s, email_claim = Some em, name_claim = Some nm\<rparr>)),
            d\<lparr>users := update_one_upsert (by_google_id s)
                         (set_user_data (user_data uuid now user_info s em nm))
                         (user_data uuid now user_info s em nm) (users d)\<rparr>))"
proof (intro conjI allI impI)
  show "\<exists>url. fst (google_auth E now uuid provider fault d) = Inr (RedirectResponse url)"
    by (simp add: google_auth_def split: prod.splits sum.splits)
next
  fix e d' assume "google_auth_try E now uuid provider fault d = (Inl e, d')"
  then show "google_auth E now uuid provider fault d =
      (Inr (RedirectResponse (frontend_url E @ ''/auth/error?message='' @ str_of E e)), d')"
    by (simp add: google_auth_def)
next
  fix e assume "provider = Inl e"
  then show "google_auth_try E now uuid provider fault d = (Inl e, d)"
    by (simp add: google_auth_try_def)
next
  assume "provider = Inr None \<or> provider = Inr (Some [])"
  then show "google_auth_try E now uuid provider fault d =
      (Inl (HTTPException 400 ''Failed to get user info from Google''), d)"
    by (auto simp: google_auth_try_def)
next
  fix user_info
  assume "provider = Inr (Some user_info) \<and> user_info \<noteq> []
         \<and> (map_of user_info ''sub'' = None \<or> map_of user_info ''email'' = None
            \<or> map_of user_info ''name'' = None)"
  then show "\<exists>k. google_auth_try E now uuid provider fault d = (Inl (KeyError k), d)"
    by (auto simp: google_auth_try_def split: option.splits)
next
  fix user_info s em nm e
  assume a: "provider = Inr (Some user_info)
         \<and> map_of user_info ''sub'' = Some s \<and> map_of user_info ''email'' = Some em
         \<and> map_of user_info ''name'' = Some nm \<and> fault = Some e"
  then have "user_info \<noteq> []" by auto
  with a show "google_auth_try E now uuid provider fault d = (Inl e, d)"
    by (simp add: google_auth_try_def)
next
  fix user_info s em nm e
  assume a: "provider = Inr (Some user_info)
         \<and> map_of user_info ''sub'' = Some s \<and> map_of user_info ''email'' = Some em
         \<and> map_of user_info ''name'' = Some nm \<and> fault = None \<and> secret_key E = Inl e"
  then have "user_info \<noteq> []" by auto
  with a show "google_auth_try E now uuid provider fault d =
           (Inl e, d\<lparr>users := update_one_upsert (by_google_id s)
                                (set_user_data (user_data uuid now user_info s em nm))
                                (user_data uuid now user_info s em nm) (users d)\<rparr>)"
    by (simp add: google_auth_try_def Let_def)
next
  fix user_info s em nm k
  assume a: "provider = Inr (Some user_info)
         \<and> map_of user_info ''sub'' = Some s \<and> map_of user_info ''email'' = Some em
         \<and> map_of user_info ''name'' = Some nm \<and> fault = None \<and> secret_key E = Inr k"
  then have "user_info \<noteq> []" by auto
  with a show "google_auth E now uuid provider fault d =
           (Inr (RedirectResponse (frontend_url E @ ''/auth/callback?token='' @
                   create_access_token (lib E) k now
                     \<lparr>sub = Some s, email_claim = Some em, name_claim = Some nm\<rparr>)),
            d\<lparr>users := update_one_upsert (by_google_id s)
                         (set_user_data (user_data uuid now user_info s em nm))
                         (user_data uuid now user_info s em nm) (users d)\<rparr>)"
    by (simp add: google_auth_def google_auth_try_def Let_def)
qed

theorem google_auth_always_redirects_witness:
  "google_auth sample_env 200 ''u-2''
        (Inl (External ''mismatching_state: CSRF Warning! State not equal in request and response.''))
        None sample_db
     = (Inr (RedirectResponse
          ''https://app/auth/error?message=mismatching_state: CSRF Warning! State not equal in request and response.''),
        sample_db)
   \<and> google_auth sample_env 200 ''u-2'' (Inr None) None sample_db
     = (Inr (RedirectResponse
          ''https://app/auth/error?message=400: Failed to get user info from Google''),
        sample_db)
   \<and> google_auth sample_env 200 ''u-2'' (Inr (Some [(''sub'', ''g1''), (''name'', ''Ann B'')]))
        None sample_db
     = (Inr (RedirectResponse (''https://app/auth/error?message='' @ [CHR 0x27] @ ''email'' @ [CHR 0x27])),
        sample_db)
   \<and> google_auth sample_env 200 ''u-2'' (Inr (Some sample_info))
        (Some (External ''connection refused'')) sample_db
     = (Inr (RedirectResponse ''https://app/auth/error?message=connection refused''), sample_db)
   \<and> google_auth (sample_env\<lparr>SECRET_KEY := None\<rparr>) 200 ''u-2'' (Inr (Some sample_info))
        None sample_db
     = (Inr (RedirectResponse ''https://app/auth/error?message=Expected a string value''),
        \<lparr>users = [\<lparr>id' = ''u-2'', google_id = ''g1'', email = ''ann@y.org'', name = Some ''Ann B'',
                   picture = [], about_me = Some [], age = None,
                   created_at = 200, last_login = 200\<rparr>],
         status_checks = []\<rparr>)
   \<and> google_auth sample_env 200 ''u-2'' (Inr (Some sample_info)) None sample_db
     = (Inr (RedirectResponse ''https://app/auth/callback?token=good''),
        \<lparr>users = [\<lparr>id' = ''u-2'', google_id = ''g1'', email = ''ann@y.org'', name = Some ''Ann B'',
                   picture = [], about_me = Some [], age = None,
                   created_at = 200, last_login = 200\<rparr>],
         status_checks = []\<rparr>)"
proof -
  note T = google_auth_always_redirects
  let ?E' = "sample_env\<lparr>SECRET_KEY := None\<rparr>"
  have env: "frontend_url sample_env = ''https://app''" "str_of sample_env = sample_message"
    "frontend_url ?E' = ''https://app''" "str_of ?E' = sample_message"
    by (simp_all add: frontend_url_def sample_env_def)
  have code: "str_nat 400 = ''400''"
    by (simp add: str_nat.simps)
  have key: "secret_key ?E' = Inl (External ''Expected a string value'')"
    by (simp add: secret_key_def sample_env_def sample_lib_def)
  have upsert: "sample_db\<lparr>users := update_one_upsert (by_google_id ''g1'')
        (set_user_data (user_data ''u-2'' 200 sample_info ''g1'' ''ann@y.org'' ''Ann B''))
        (user_data ''u-2'' 200 sample_info ''g1'' ''ann@y.org'' ''Ann B'') (users sample_db)\<rparr>
      = \<lparr>users = [\<lparr>id' = ''u-2'', google_id = ''g1'', email = ''ann@y.org'', name = Some ''Ann B'',
                   picture = [], about_me = Some [], age = None,
                   created_at = 200, last_login = 200\<rparr>],
         status_checks = []\<rparr>"
    by (simp add: sample_user_data update_one_upsert_def set_user_data_all sample_db_def
        by_google_id_def sample_user_def)
  have a: "google_auth sample_env 200 ''u-2''
        (Inl (External ''mismatching_state: CSRF Warning! State not equal in request and response.''))
        None sample_db
     = (Inr (RedirectResponse
          ''https://app/auth/error?message=mismatching_state: CSRF Warning! State not equal in request and response.''),
        sample_db)"
    using T [of sample_env 200 "''u-2''"
        "Inl (External ''mismatching_state: CSRF Warning! State not equal in request and response.'')"
        None sample_db]
    by (simp add: env)
  have b: "google_auth sample_env 200 ''u-2'' (Inr None) None sample_db
     = (Inr (RedirectResponse
          ''https://app/auth/error?message=400: Failed to get user info from Google''),
        sample_db)"
    using T [of sample_env 200 "''u-2''" "Inr None" None sample_db]
    by (simp add: env code)
  have c: "google_auth sample_env 200 ''u-2'' (Inr (Some [(''sub'', ''g1''), (''name'', ''Ann B'')]))
        None sample_db
     = (Inr (RedirectResponse (''https://app/auth/error?message='' @ [CHR 0x27] @ ''email'' @ [CHR 0x27])),
        sample_db)"
  proof -
    have "google_auth_try sample_env 200 ''u-2''
        (Inr (Some [(''sub'', ''g1''), (''name'', ''Ann B'')])) None sample_db
      = (Inl (KeyError ''email''), sample_db)"
      by (simp add: google_auth_try_def)
    with T [of sample_env 200 "''u-2''" "Inr (Some [(''sub'', ''g1''), (''name'', ''Ann B'')])"
        None sample_db]
    show ?thesis by (simp add: env)
  qed
  have d: "google_auth sample_env 200 ''u-2'' (Inr (Some sample_info))
        (Some (External ''connection refused'')) sample_db
     = (Inr (RedirectResponse ''https://app/auth/error?message=connection refused''), sample_db)"
    using T [of sample_env 200 "''u-2''" "Inr (Some sample_info)"
        "Some (External ''connection refused'')" sample_db] sample_info_keys
    by (simp add: env)
  have e: "google_auth ?E' 200 ''u-2'' (Inr (Some sample_info)) None sample_db
     = (Inr (RedirectResponse ''https://app/auth/error?message=Expected a string value''),
        \<lparr>users = [\<lparr>id' = ''u-2'', google_id = ''g1'', email = ''ann@y.org'', name = Some ''Ann B'',
                   picture = [], about_me = Some [], age = None,
                   created_at = 200, last_login = 200\<rparr>],
         status_checks = []\<rparr>)"
    using T [of ?E' 200 "''u-2''" "Inr (Some sample_info)" None sample_db] sample_info_keys key
    by (simp add: env upsert)
  have f: "google_auth sample_env 200 ''u-2'' (Inr (Some sample_info)) None sample_db
     = (Inr (RedirectResponse ''https://app/auth/callback?token=good''),
        \<lparr>users = [\<lparr>id' = ''u-2'', google_id = ''g1'', email = ''ann@y.org'', name = Some ''Ann B'',
                   picture = [], about_me = Some [], age = None,
                   created_at = 200, last_login = 200\<rparr>],
         status_checks = []\<rparr>)"
    using T [of sample_env 200 "''u-2''" "Inr (Some sample_info)" None sample_db]
      sample_info_keys sample_secret_key
    by (simp add: sample_token upsert)
  from a b c d e f show ?thesis by (intro conjI)
qed

section \<open>Status log: the first thousand\<close>

lemma get_status_checks_take: "get_status_checks d = take 1000 (status_checks d)"
  by (simp add: get_status_checks_def to_list_def)

lemma create_status_check_appends:
  "status_checks (snd (create_status_check uuid now client_name d)) =
     status_checks d @ [StatusCheck uuid client_name now]"
  by (simp add: create_status_check_def Let_def)

lemma sample_posts_status_checks:
  "status_checks (sample_posts n d) =
     status_checks d @ map (\<lambda>k. StatusCheck (''id-'' @ replicate k (CHR ''a'')) ''c'' (int k)) [0..<n]"
  by (induction n) (simp_all add: create_status_check_appends)

text \<open>
  C7, as amended. \<^verbatim>\<open>GET /status\<close> returns the first 1000 records of the collection in
  the order of their insertion, and all of them when there are fewer; a new record is
  inserted last. So when 1000 records or more exist, the 1000 earliest inserted are
  returned, and a record inserted from then on does not change the answer.
\<close>

theorem get_status_checks_earliest:
  "get_status_checks d = take 1000 (status_checks d)
   \<and> length (get_status_checks d) = min 1000 (length (status_checks d))
   \<and> status_checks (snd (create_status_check uuid now client_name d)) =
       status_checks d @ [StatusCheck uuid client_name now]
   \<and> (1000 \<le> length (status_checks d) \<longrightarrow>
        get_status_checks (snd (create_status_check uuid now client_name d)) = get_status_checks d)"
  by (simp add: get_status_checks_take create_status_check_appends min_def)

theorem get_status_checks_earliest_witness:
  "get_status_checks (sample_posts 1001 \<lparr>users = [], status_checks = []\<rparr>)
   = get_status_checks (sample_posts 1000 \<lparr>users = [], status_checks = []\<rparr>)"
proof -
  have step: "sample_posts 1001 d = snd (create_status_check (''id-'' @ replicate 1000 (CHR ''a''))
      1000 ''c'' (sample_posts 1000 d))" for d
  proof -
    have "sample_posts (Suc 1000) d = snd (create_status_check (''id-'' @ replicate 1000 (CHR ''a''))
      (int 1000) ''c'' (sample_posts 1000 d))"
      by (rule sample_posts.simps)
    then show ?thesis by simp
  qed
  have "1000 \<le> length (status_checks (sample_posts 1000 \<lparr>users = [], status_checks = []\<rparr>))"
    by (simp add: sample_posts_status_checks)
  with get_status_checks_earliest [of "sample_posts 1000 \<lparr>users = [], status_checks = []\<rparr>"
      "''id-'' @ replicate 1000 (CHR ''a'')" 1000 "''c''"]
  show ?thesis unfolding step by blast
qed

text \<open>
  As the specification states it, the property fails once the collection is full: after
  1001 requests, served at the times 0 to 1000, the record of the last one is the most
  recent of 1001 and is not returned; the answer starts with the oldest record.
\<close>

theorem get_status_checks_counterexample:
  "length (status_checks (sample_posts 1001 \<lparr>users = [], status_checks = []\<rparr>)) = 1001
   \<and> last (status_checks (sample_posts 1001 \<lparr>users = [], status_checks = []\<rparr>))
       = StatusCheck (''id-'' @ replicate 1000 (CHR ''a'')) ''c'' 1000
   \<and> StatusCheck (''id-'' @ replicate 1000 (CHR ''a'')) ''c'' 1000
       \<notin> set (get_status_checks (sample_posts 1001 \<lparr>users = [], status_checks = []\<rparr>))
   \<and> hd (get_status_checks (sample_posts 1001 \<lparr>users = [], status_checks = []\<rparr>))
       = StatusCheck ''id-'' ''c'' 0"
proof -
  let ?f = "\<lambda>k. StatusCheck (''id-'' @ replicate k (CHR ''a'')) ''c'' (int k)"
  have all: "status_checks (sample_posts 1001 \<lparr>users = [], status_checks = []\<rparr>) = map ?f [0..<1001]"
    by (simp add: sample_posts_status_checks)
  have got: "get_status_checks (sample_posts 1001 \<lparr>users = [], status_checks = []\<rparr>) = map ?f [0..<1000]"
    by (simp add: get_status_checks_take all take_map)
  have "length (map ?f [0..<1001]) = 1001" by simp
  moreover have "last (map ?f [0..<1001]) = ?f 1000" by (simp add: last_map)
  moreover have "?f 1000 \<notin> set (map ?f [0..<1000])" by auto
  moreover have "hd (map ?f [0..<1000]) = ?f 0" by (simp add: hd_map)
  ultimately show ?thesis unfolding all got by simp
qed

end
